theory Spec2Isabelle
  imports Main "HOL-Library.Word" "HOL-Library.Multiset" "HOL-Library.List_Lexorder"
begin

section \<open>Data model of the signature verifier (package crypto)\<close>

text \<open>
  Go byte slices are lists of 8-bit words. A Go string is a byte sequence as well, and the
  conversions \<^verbatim>\<open>string(b)\<close> and \<^verbatim>\<open>[]byte(s)\<close> copy the bytes unchanged, so both
  are the identity here.
\<close>

type_synonym bytes = "8 word list"

text \<open>
  \<^verbatim>\<open>crypto.Hash\<close> is an unsigned integer naming a digest function of the standard
  library; \<^verbatim>\<open>crypto.SHA256\<close> is the fifth constant of its declaration.
\<close>

type_synonym crypto_Hash = nat

definition crypto_SHA256 :: crypto_Hash where
  "crypto_SHA256 = 5"

text \<open>
  Modelled from the spec: the package \<^verbatim>\<open>sigpb\<close>, which declares the message
  \<^verbatim>\<open>DigitallySigned\<close> and its two enumerations, is not among the source files. The
  enumerations are 32-bit integers on the wire; the numbers of the named constants are the
  ones the wire format of the specification gives
  (\<^verbatim>\<open>SHA256 = 1\<close>, \<^verbatim>\<open>ECDSA = 1\<close>, \<^verbatim>\<open>RSA = 2\<close>). Every other number is an
  enumeration value without a name.
\<close>

definition DigitallySigned_SHA256 :: "32 word" where
  "DigitallySigned_SHA256 = 1"

definition DigitallySigned_ECDSA :: "32 word" where
  "DigitallySigned_ECDSA = 1"

definition DigitallySigned_RSA :: "32 word" where
  "DigitallySigned_RSA = 2"

record DigitallySigned =
  HashAlgorithm :: "32 word"
  SignatureAlgorithm :: "32 word"
  Signature :: bytes

text \<open>
  \<^verbatim>\<open>crypto.PublicKey\<close> is the empty interface. The type switch of \<^verbatim>\<open>Verify\<close> tells
  three cases apart: a \<^verbatim>\<open>*ecdsa.PublicKey\<close>, a \<^verbatim>\<open>*rsa.PublicKey\<close> and everything else;
  everything else is either a value of some other dynamic type (kept by the name that
  \<^verbatim>\<open>%T\<close> prints) or the nil interface. In the first two cases the pointer is not nil
  and the key behind it is complete: the libraries are entered with a key they accept, and
  what they do with a nil pointer or a key without curve or modulus is not described here.
\<close>

record ecdsa_PublicKey =
  ecdsa_Curve :: string
  ecdsa_X :: int
  ecdsa_Y :: int

record rsa_PublicKey =
  rsa_N :: int
  rsa_E :: int

datatype PublicKey =
    ECDSA_PublicKey ecdsa_PublicKey
  | RSA_PublicKey rsa_PublicKey
  | Other_PublicKey string
  | Nil_PublicKey

fun type_name :: "PublicKey \<Rightarrow> string" where
  "type_name (ECDSA_PublicKey k) = ''*ecdsa.PublicKey''"
| "type_name (RSA_PublicKey k) = ''*rsa.PublicKey''"
| "type_name (Other_PublicKey n) = n"
| "type_name Nil_PublicKey = ''<nil>''"

text \<open>
  \<^verbatim>\<open>crypto.SignerOpts\<close> is an interface; the two implementations that reach
  \<^verbatim>\<open>verifyRSA\<close> are a \<^verbatim>\<open>crypto.Hash\<close> and a \<^verbatim>\<open>*rsa.PSSOptions\<close>.
\<close>

record PSSOptions =
  pss_SaltLength :: int
  pss_Hash :: crypto_Hash

datatype SignerOpts =
    Opts_Hash crypto_Hash
  | Opts_PSSOptions PSSOptions

text \<open>
  Modelled from the spec: \<^verbatim>\<open>objecthash.CommonJSONHash\<close> returns an array
  \<^verbatim>\<open>[hashLength]byte\<close>, and the constant \<^verbatim>\<open>hashLength\<close> is not among the source
  files. The specification makes a digest a byte sequence of fixed length from a hash of
  the SHA-256 class: 32 bytes. \<open>hash_slice\<close> is the slice \<^verbatim>\<open>hash[:]\<close> of such an
  array.
\<close>

definition hashLength :: nat where
  "hashLength = 32"

typedef hash_array = "{bs :: 8 word list. length bs = hashLength}"
  morphisms hash_slice hash_array_of
  by (rule exI [of _ "replicate hashLength 0"]) simp

record pem_Block =
  block_Type :: string
  block_Bytes :: bytes

subsection \<open>Errors\<close>

text \<open>
  An error of a library is kept by its message. The errors the package makes itself are
  one constructor each: the package variable \<^verbatim>\<open>errVerify\<close>
  (\<^verbatim>\<open>signature verification failed\<close>) and the five format strings of
  \<^verbatim>\<open>fmt.Errorf\<close> and \<^verbatim>\<open>errors.New\<close>, with the value each one formats.
\<close>

type_synonym lib_error = string

datatype error =
    errVerify
  | Err_unsupported_hash_algorithm crypto_Hash
  | Err_signature_algorithm_does_not_match
  | Err_unknown_private_key_type string
  | Err_could_not_decode_PEM
  | Err_extra_data_after_PEM
  | Err_unable_to_parse_public_key lib_error
  | Err_library lib_error

subsection \<open>The libraries the package calls\<close>

text \<open>
  The functions of the Go standard library and of \<^verbatim>\<open>objecthash\<close> are parameters: a
  record holds one function for each, with the result type of its Go signature (a pair
  \<^verbatim>\<open>(value, error)\<close> is a sum, a lone \<^verbatim>\<open>error\<close> an option). \<^verbatim>\<open>'obj\<close> is the type of
  the values handed to \<^verbatim>\<open>json.Marshal\<close>, \<^verbatim>\<open>'h\<close> the state of a running
  \<^verbatim>\<open>hash.Hash\<close>. \<^verbatim>\<open>asn1.Unmarshal\<close> is the call of \<^verbatim>\<open>verifyECDSA\<close>, into a
  struct of two big integers: it yields the two integers and the bytes left over.
\<close>

record ('obj, 'h) primitives =
  pem_Decode :: "bytes \<Rightarrow> pem_Block option \<times> bytes"
  x509_ParsePKIXPublicKey :: "bytes \<Rightarrow> lib_error + PublicKey"
  json_Marshal :: "'obj \<Rightarrow> lib_error + bytes"
  CommonJSONHash :: "bytes \<Rightarrow> hash_array"
  Hash_New :: "crypto_Hash \<Rightarrow> 'h"
  Hash_Write :: "'h \<Rightarrow> bytes \<Rightarrow> 'h"
  Hash_Sum :: "'h \<Rightarrow> bytes \<Rightarrow> bytes"
  asn1_Unmarshal :: "bytes \<Rightarrow> lib_error + ((int \<times> int) \<times> bytes)"
  ecdsa_Verify :: "ecdsa_PublicKey \<Rightarrow> bytes \<Rightarrow> int \<Rightarrow> int \<Rightarrow> bool"
  rsa_VerifyPSS :: "rsa_PublicKey \<Rightarrow> crypto_Hash \<Rightarrow> bytes \<Rightarrow> bytes \<Rightarrow> PSSOptions \<Rightarrow> lib_error option"
  rsa_VerifyPKCS1v15 :: "rsa_PublicKey \<Rightarrow> crypto_Hash \<Rightarrow> bytes \<Rightarrow> bytes \<Rightarrow> lib_error option"

text \<open>
  Every function returns, beside its result, the library calls it made, in order. A call
  that is not in the list was not made.
\<close>

datatype call =
    Call_pem_Decode
  | Call_x509_ParsePKIXPublicKey
  | Call_json_Marshal
  | Call_CommonJSONHash
  | Call_Hash_New
  | Call_Hash_Write
  | Call_Hash_Sum
  | Call_asn1_Unmarshal
  | Call_ecdsa_Verify
  | Call_rsa_VerifyPSS
  | Call_rsa_VerifyPKCS1v15

fun signature_primitive :: "call \<Rightarrow> bool" where
  "signature_primitive Call_asn1_Unmarshal = True"
| "signature_primitive Call_ecdsa_Verify = True"
| "signature_primitive Call_rsa_VerifyPSS = True"
| "signature_primitive Call_rsa_VerifyPKCS1v15 = True"
| "signature_primitive c = False"

text \<open>
  A call of the package either returns or panics; the one panic of its own code is the
  read of a field through a nil \<^verbatim>\<open>*sigpb.DigitallySigned\<close>. A panic inside a library
  is not part of the model.
\<close>

datatype 'a outcome = Return 'a | Panic

section \<open>The functions of the package\<close>

definition cryptoHashLookup :: "32 word \<rightharpoonup> crypto_Hash" where
  "cryptoHashLookup = [DigitallySigned_SHA256 \<mapsto> crypto_SHA256]"

definition PublicKeyFromPEM ::
  "('obj, 'h) primitives \<Rightarrow> bytes \<Rightarrow> (error + PublicKey) \<times> call list" where
  "PublicKeyFromPEM P pemEncodedKey =
     (case pem_Decode P pemEncodedKey of
        (None, rest) \<Rightarrow> (Inl Err_could_not_decode_PEM, [Call_pem_Decode])
      | (Some publicBlock, rest) \<Rightarrow>
          if length rest > 0 then (Inl Err_extra_data_after_PEM, [Call_pem_Decode])
          else
            (case x509_ParsePKIXPublicKey P (block_Bytes publicBlock) of
               Inl err \<Rightarrow>
                 (Inl (Err_unable_to_parse_public_key err),
                  [Call_pem_Decode, Call_x509_ParsePKIXPublicKey])
             | Inr parsedKey \<Rightarrow>
                 (Inr parsedKey, [Call_pem_Decode, Call_x509_ParsePKIXPublicKey])))"

definition verifyRSA ::
  "('obj, 'h) primitives \<Rightarrow> rsa_PublicKey \<Rightarrow> bytes \<Rightarrow> bytes \<Rightarrow> crypto_Hash \<Rightarrow> SignerOpts
     \<Rightarrow> error option \<times> call list" where
  "verifyRSA P pub hashed sig hasher opts =
     (case opts of
        Opts_PSSOptions pssOpts \<Rightarrow>
          (map_option Err_library (rsa_VerifyPSS P pub hasher hashed sig pssOpts),
           [Call_rsa_VerifyPSS])
      | Opts_Hash h \<Rightarrow>
          (map_option Err_library (rsa_VerifyPKCS1v15 P pub hasher hashed sig),
           [Call_rsa_VerifyPKCS1v15]))"

definition verifyECDSA ::
  "('obj, 'h) primitives \<Rightarrow> ecdsa_PublicKey \<Rightarrow> bytes \<Rightarrow> bytes \<Rightarrow> error option \<times> call list" where
  "verifyECDSA P pub hashed sig =
     (case asn1_Unmarshal P sig of
        Inl err \<Rightarrow> (Some errVerify, [Call_asn1_Unmarshal])
      | Inr ((R, S), rest) \<Rightarrow>
          if length rest \<noteq> 0 then (Some errVerify, [Call_asn1_Unmarshal])
          else if \<not> ecdsa_Verify P pub hashed R S then
            (Some errVerify, [Call_asn1_Unmarshal, Call_ecdsa_Verify])
          else (None, [Call_asn1_Unmarshal, Call_ecdsa_Verify]))"

definition Verify ::
  "('obj, 'h) primitives \<Rightarrow> PublicKey \<Rightarrow> bytes \<Rightarrow> DigitallySigned option
     \<Rightarrow> error option outcome \<times> call list" where
  "Verify P pub data sig_ptr =
     (case sig_ptr of
        None \<Rightarrow> (Panic, [])
      | Some sig \<Rightarrow>
          let sigAlgo = SignatureAlgorithm sig in
          (case cryptoHashLookup (HashAlgorithm sig) of
             None \<Rightarrow> (Return (Some (Err_unsupported_hash_algorithm 0)), [])
           | Some hasher \<Rightarrow>
               let h = Hash_Write P (Hash_New P hasher) data;
                   digest = Hash_Sum P h [];
                   t = [Call_Hash_New, Call_Hash_Write, Call_Hash_Sum]
               in (case pub of
                     ECDSA_PublicKey key \<Rightarrow>
                       if sigAlgo \<noteq> DigitallySigned_ECDSA then
                         (Return (Some Err_signature_algorithm_does_not_match), t)
                       else
                         (case verifyECDSA P key digest (Signature sig) of
                            (r, t') \<Rightarrow> (Return r, t @ t'))
                   | RSA_PublicKey key \<Rightarrow>
                       if sigAlgo \<noteq> DigitallySigned_RSA then
                         (Return (Some Err_signature_algorithm_does_not_match), t)
                       else
                         (case verifyRSA P key digest (Signature sig) hasher (Opts_Hash hasher) of
                            (r, t') \<Rightarrow> (Return r, t @ t'))
                   | _ \<Rightarrow> (Return (Some (Err_unknown_private_key_type (type_name pub))), t))))"

definition VerifyObject ::
  "('obj, 'h) primitives \<Rightarrow> PublicKey \<Rightarrow> 'obj \<Rightarrow> DigitallySigned option
     \<Rightarrow> error option outcome \<times> call list" where
  "VerifyObject P pub obj sig_ptr =
     (case json_Marshal P obj of
        Inl err \<Rightarrow> (Return (Some (Err_library err)), [Call_json_Marshal])
      | Inr j \<Rightarrow>
          let hash = CommonJSONHash P j in
          (case Verify P pub (hash_slice hash) sig_ptr of
             (r, t) \<Rightarrow> (r, [Call_json_Marshal, Call_CommonJSONHash] @ t)))"

subsection \<open>The composition the specification describes\<close>

text \<open>
  The specification calls the first half of \<^verbatim>\<open>VerifyObject\<close> the Canonical Hasher: it
  reduces an object to a digest, or fails. Following its words, the hasher is the
  serialisation of the object followed by the hash of the serialised text, and
  \<^verbatim>\<open>verifyObject\<close> is the hasher followed by \<^verbatim>\<open>verify\<close>.
\<close>

definition Canonical_Hasher ::
  "('obj, 'h) primitives \<Rightarrow> 'obj \<Rightarrow> (lib_error + hash_array) \<times> call list" where
  "Canonical_Hasher P obj =
     (case json_Marshal P obj of
        Inl err \<Rightarrow> (Inl err, [Call_json_Marshal])
      | Inr j \<Rightarrow> (Inr (CommonJSONHash P j), [Call_json_Marshal, Call_CommonJSONHash]))"

definition hash_then_verify ::
  "('obj, 'h) primitives \<Rightarrow> PublicKey \<Rightarrow> 'obj \<Rightarrow> DigitallySigned option
     \<Rightarrow> error option outcome \<times> call list" where
  "hash_then_verify P pub obj sig_ptr =
     (case Canonical_Hasher P obj of
        (Inl err, t) \<Rightarrow> (Return (Some (Err_library err)), t)
      | (Inr d, t) \<Rightarrow>
          (fst (Verify P pub (hash_slice d) sig_ptr),
           t @ snd (Verify P pub (hash_slice d) sig_ptr)))"

subsection \<open>The canonical hasher of the specification\<close>









subsection \<open>Stand-ins for the libraries, for evaluation at concrete inputs\<close>

text \<open>
  The theorems below hold for every choice of the library functions. To run the package
  on concrete inputs, \<open>test_primitives_for\<close> supplies small deterministic stand-ins
  around a given serialiser, and \<open>test_primitives\<close> is the instance described here:
  \<^item> a PEM block is the byte 1, a length byte and that many payload bytes;
  \<^item> a key structure is a tag byte (1 for ECDSA, 2 for RSA) and two one-byte numbers;
  \<^item> an object is its serialised text, or \<open>None\<close> for a value that cannot be
    serialised; the canonical hash of a text is the sum of its bytes, after 31 zeros;
  \<^item> a digest is the sum of the bytes written;
  \<^item> \<open>der_two_integers\<close> reads a DER sequence of two integers with one-byte lengths
    and returns what follows the sequence;
  \<^item> an ECDSA signature is accepted when it is the pair of the key's coordinates, an RSA
    signature when it is the digest itself (PKCS#1 v1.5) or the digest reversed (PSS).
\<close>

definition be_int :: "bytes \<Rightarrow> int" where
  "be_int bs = foldl (\<lambda>a b. a * 256 + uint b) 0 bs"

definition der_integer :: "bytes \<Rightarrow> (int \<times> bytes) option" where
  "der_integer bs =
     (case bs of
        tag # len # xs \<Rightarrow>
          if tag = 0x02 \<and> 0 < unat len \<and> unat len < 128 \<and> unat len \<le> length xs
          then Some (be_int (take (unat len) xs), drop (unat len) xs)
          else None
      | _ \<Rightarrow> None)"

definition der_two_integers :: "bytes \<Rightarrow> lib_error + ((int \<times> int) \<times> bytes)" where
  "der_two_integers bs =
     (case bs of
        tag # len # xs \<Rightarrow>
          if tag = 0x30 \<and> unat len < 128 \<and> unat len \<le> length xs then
            (case der_integer (take (unat len) xs) of
               None \<Rightarrow> Inl ''asn1: syntax error''
             | Some (r, ys) \<Rightarrow>
                 (case der_integer ys of
                    None \<Rightarrow> Inl ''asn1: syntax error''
                  | Some (s, zs) \<Rightarrow>
                      if zs = [] then Inr ((r, s), drop (unat len) xs)
                      else Inl ''asn1: syntax error''))
          else Inl ''asn1: syntax error''
      | _ \<Rightarrow> Inl ''asn1: syntax error'')"

definition test_pem_Decode :: "bytes \<Rightarrow> pem_Block option \<times> bytes" where
  "test_pem_Decode bs =
     (case bs of
        tag # len # xs \<Rightarrow>
          if tag = 1 \<and> unat len \<le> length xs
          then (Some \<lparr>block_Type = ''PUBLIC KEY'', block_Bytes = take (unat len) xs\<rparr>,
                drop (unat len) xs)
          else (None, bs)
      | _ \<Rightarrow> (None, bs))"

definition test_ParsePKIXPublicKey :: "bytes \<Rightarrow> lib_error + PublicKey" where
  "test_ParsePKIXPublicKey bs =
     (case bs of
        [tag, a, b] \<Rightarrow>
          if tag = 1 then
            Inr (ECDSA_PublicKey \<lparr>ecdsa_Curve = ''P-256'', ecdsa_X = uint a, ecdsa_Y = uint b\<rparr>)
          else if tag = 2 then Inr (RSA_PublicKey \<lparr>rsa_N = uint a, rsa_E = uint b\<rparr>)
          else Inl ''x509: unknown public key algorithm''
      | _ \<Rightarrow> Inl ''x509: failed to parse public key'')"

definition test_primitives_for ::
  "('obj \<Rightarrow> lib_error + bytes) \<Rightarrow> ('obj, bytes) primitives" where
  "test_primitives_for marshal =
     \<lparr>pem_Decode = test_pem_Decode,
      x509_ParsePKIXPublicKey = test_ParsePKIXPublicKey,
      json_Marshal = marshal,
      CommonJSONHash = (\<lambda>j. hash_array_of (replicate 31 0 @ [sum_list j])),
      Hash_New = (\<lambda>hasher. []),
      Hash_Write = (\<lambda>h p. h @ p),
      Hash_Sum = (\<lambda>h b. b @ [sum_list h]),
      asn1_Unmarshal = der_two_integers,
      ecdsa_Verify = (\<lambda>pub hashed R S. R = ecdsa_X pub \<and> S = ecdsa_Y pub),
      rsa_VerifyPSS =
        (\<lambda>pub hasher hashed sig opts.
           if sig = rev hashed then None else Some ''crypto/rsa: verification error''),
      rsa_VerifyPKCS1v15 =
        (\<lambda>pub hasher hashed sig.
           if sig = hashed then None else Some ''crypto/rsa: verification error'')\<rparr>"

definition test_primitives :: "(bytes option, bytes) primitives" where
  "test_primitives =
     test_primitives_for
       (\<lambda>obj. case obj of None \<Rightarrow> Inl ''json: unsupported type'' | Some j \<Rightarrow> Inr j)"

section \<open>Digests\<close>

lemma hash_slice_of_array: "length bs = hashLength \<Longrightarrow> hash_slice (hash_array_of bs) = bs"
  by (simp add: hash_array_of_inverse)

lemma length_hash_slice: "length (hash_slice d) = hashLength"
  using hash_slice [of d] by simp

section \<open>The hash table\<close>

lemma cryptoHashLookup_SHA256:
  "cryptoHashLookup DigitallySigned_SHA256 = Some crypto_SHA256"
  by (simp add: cryptoHashLookup_def)

lemma cryptoHashLookup_other:
  "a \<noteq> DigitallySigned_SHA256 \<Longrightarrow> cryptoHashLookup a = None"
  by (simp add: cryptoHashLookup_def)

lemma cryptoHashLookup_Some_iff:
  "cryptoHashLookup a = Some h \<longleftrightarrow> a = DigitallySigned_SHA256 \<and> h = crypto_SHA256"
  by (auto simp: cryptoHashLookup_def)

section \<open>Verify\<close>

lemma Verify_lookup_None:
  "cryptoHashLookup (HashAlgorithm sig) = None \<Longrightarrow>
   Verify P pub data (Some sig) = (Return (Some (Err_unsupported_hash_algorithm 0)), [])"
  by (simp add: Verify_def)

lemma Verify_ECDSA_key:
  "HashAlgorithm sig = DigitallySigned_SHA256 \<Longrightarrow>
   Verify P (ECDSA_PublicKey key) data (Some sig) =
     (if SignatureAlgorithm sig \<noteq> DigitallySigned_ECDSA
      then (Return (Some Err_signature_algorithm_does_not_match),
            [Call_Hash_New, Call_Hash_Write, Call_Hash_Sum])
      else (Return (fst (verifyECDSA P key
                      (Hash_Sum P (Hash_Write P (Hash_New P crypto_SHA256) data) [])
                      (Signature sig))),
            [Call_Hash_New, Call_Hash_Write, Call_Hash_Sum] @
            snd (verifyECDSA P key
                   (Hash_Sum P (Hash_Write P (Hash_New P crypto_SHA256) data) [])
                   (Signature sig))))"
  by (simp add: Verify_def cryptoHashLookup_SHA256 Let_def split: prod.splits)

lemma Verify_RSA_key:
  "HashAlgorithm sig = DigitallySigned_SHA256 \<Longrightarrow>
   Verify P (RSA_PublicKey key) data (Some sig) =
     (if SignatureAlgorithm sig \<noteq> DigitallySigned_RSA
      then (Return (Some Err_signature_algorithm_does_not_match),
            [Call_Hash_New, Call_Hash_Write, Call_Hash_Sum])
      else (Return (fst (verifyRSA P key
                      (Hash_Sum P (Hash_Write P (Hash_New P crypto_SHA256) data) [])
                      (Signature sig) crypto_SHA256 (Opts_Hash crypto_SHA256))),
            [Call_Hash_New, Call_Hash_Write, Call_Hash_Sum] @
            snd (verifyRSA P key
                   (Hash_Sum P (Hash_Write P (Hash_New P crypto_SHA256) data) [])
                   (Signature sig) crypto_SHA256 (Opts_Hash crypto_SHA256))))"
  by (simp add: Verify_def cryptoHashLookup_SHA256 Let_def split: prod.splits)

lemma Verify_other_key:
  "HashAlgorithm sig = DigitallySigned_SHA256 \<Longrightarrow>
   (\<forall>k. pub \<noteq> ECDSA_PublicKey k) \<Longrightarrow> (\<forall>k. pub \<noteq> RSA_PublicKey k) \<Longrightarrow>
   Verify P pub data (Some sig) =
     (Return (Some (Err_unknown_private_key_type (type_name pub))),
      [Call_Hash_New, Call_Hash_Write, Call_Hash_Sum])"
  by (cases pub) (simp_all add: Verify_def cryptoHashLookup_SHA256 Let_def)

lemma DigitallySigned_ECDSA_neq_RSA: "DigitallySigned_ECDSA \<noteq> DigitallySigned_RSA"
  by (simp add: DigitallySigned_ECDSA_def DigitallySigned_RSA_def)

text \<open>
  Claim C4. Whatever the public key (ECDSA, RSA, any other type, nil) and whatever the
  signature algorithm of the tagged signature, a hash algorithm other than SHA-256, the
  only entry of the table, makes \<^verbatim>\<open>Verify\<close> return the unsupported-hash error. No
  library call is made: no digest function is created, so there is no fallback, and the
  result is the same for keys and algorithms that would fail the later checks.
\<close>

theorem Verify_unsupported_hash_algorithm:
  assumes "HashAlgorithm sig \<noteq> DigitallySigned_SHA256"
  shows "Verify P pub data (Some sig) =
           (Return (Some (Err_unsupported_hash_algorithm 0)), [])"
  using assms by (simp add: Verify_lookup_None cryptoHashLookup_other)

theorem Verify_unsupported_hash_algorithm_witness:
  "HashAlgorithm \<lparr>HashAlgorithm = 0, SignatureAlgorithm = DigitallySigned_RSA, Signature = [7]\<rparr>
     \<noteq> DigitallySigned_SHA256 \<and>
   Verify test_primitives (RSA_PublicKey \<lparr>rsa_N = 3233, rsa_E = 17\<rparr>) [1, 2, 3]
     (Some \<lparr>HashAlgorithm = 0, SignatureAlgorithm = DigitallySigned_RSA, Signature = [7]\<rparr>) =
     (Return (Some (Err_unsupported_hash_algorithm 0)), [])"
  using Verify_unsupported_hash_algorithm
    [of "\<lparr>HashAlgorithm = 0, SignatureAlgorithm = DigitallySigned_RSA, Signature = [7]\<rparr>"
        test_primitives "RSA_PublicKey \<lparr>rsa_N = 3233, rsa_E = 17\<rparr>" "[1, 2, 3]"]
  by (simp add: DigitallySigned_SHA256_def)

text \<open>
  Claim C1, as amended. With a supported hash algorithm, an RSA key with a signature tagged
  ECDSA, and an ECDSA key with a signature tagged RSA, make \<^verbatim>\<open>Verify\<close> return the
  mismatch error. The digest has been recomputed by then (the three calls on the hash);
  the signature is neither decoded nor verified.
\<close>

theorem Verify_algorithm_mismatch:
  assumes "HashAlgorithm sig = DigitallySigned_SHA256"
    and "(pub = RSA_PublicKey rk \<and> SignatureAlgorithm sig = DigitallySigned_ECDSA) \<or>
         (pub = ECDSA_PublicKey ek \<and> SignatureAlgorithm sig = DigitallySigned_RSA)"
  shows "Verify P pub data (Some sig) =
           (Return (Some Err_signature_algorithm_does_not_match),
            [Call_Hash_New, Call_Hash_Write, Call_Hash_Sum]) \<and>
         list_all (\<lambda>c. \<not> signature_primitive c) (snd (Verify P pub data (Some sig)))"
  using assms DigitallySigned_ECDSA_neq_RSA
  by (auto simp: Verify_ECDSA_key Verify_RSA_key)

text \<open>
  The claim as first stated, for every tagged signature, fails where the hash algorithm is
  not supported: the table is consulted first, and its error is the one returned.
\<close>

theorem Verify_algorithm_mismatch_counterexample:
  "SignatureAlgorithm \<lparr>HashAlgorithm = 0, SignatureAlgorithm = DigitallySigned_ECDSA, Signature = []\<rparr>
     = DigitallySigned_ECDSA \<and>
   Verify test_primitives (RSA_PublicKey \<lparr>rsa_N = 3233, rsa_E = 17\<rparr>) [1, 2, 3]
     (Some \<lparr>HashAlgorithm = 0, SignatureAlgorithm = DigitallySigned_ECDSA, Signature = []\<rparr>) =
     (Return (Some (Err_unsupported_hash_algorithm 0)), []) \<and>
   fst (Verify test_primitives (RSA_PublicKey \<lparr>rsa_N = 3233, rsa_E = 17\<rparr>) [1, 2, 3]
     (Some \<lparr>HashAlgorithm = 0, SignatureAlgorithm = DigitallySigned_ECDSA, Signature = []\<rparr>)) \<noteq>
     Return (Some Err_signature_algorithm_does_not_match)"
  by (simp add: Verify_def cryptoHashLookup_def DigitallySigned_SHA256_def)


theorem Verify_algorithm_mismatch_witness:
  "Verify test_primitives (RSA_PublicKey \<lparr>rsa_N = 3233, rsa_E = 17\<rparr>) [1, 2, 3]
     (Some \<lparr>HashAlgorithm = DigitallySigned_SHA256, SignatureAlgorithm = DigitallySigned_ECDSA,
            Signature = [0x30, 0x06, 0x02, 0x01, 0x01, 0x02, 0x01, 0x02]\<rparr>) =
     (Return (Some Err_signature_algorithm_does_not_match),
      [Call_Hash_New, Call_Hash_Write, Call_Hash_Sum]) \<and>
   Verify test_primitives
     (ECDSA_PublicKey \<lparr>ecdsa_Curve = ''P-256'', ecdsa_X = 1, ecdsa_Y = 2\<rparr>) [1, 2, 3]
     (Some \<lparr>HashAlgorithm = DigitallySigned_SHA256, SignatureAlgorithm = DigitallySigned_RSA,
            Signature = [6]\<rparr>) =
     (Return (Some Err_signature_algorithm_does_not_match),
      [Call_Hash_New, Call_Hash_Write, Call_Hash_Sum])"
  using
    Verify_algorithm_mismatch
      [where sig = "\<lparr>HashAlgorithm = DigitallySigned_SHA256,
                      SignatureAlgorithm = DigitallySigned_ECDSA,
                      Signature = [0x30, 0x06, 0x02, 0x01, 0x01, 0x02, 0x01, 0x02]\<rparr>"
         and pub = "RSA_PublicKey \<lparr>rsa_N = 3233, rsa_E = 17\<rparr>"
         and rk = "\<lparr>rsa_N = 3233, rsa_E = 17\<rparr>"
         and P = test_primitives and data = "[1, 2, 3]"]
    Verify_algorithm_mismatch
      [where sig = "\<lparr>HashAlgorithm = DigitallySigned_SHA256,
                      SignatureAlgorithm = DigitallySigned_RSA, Signature = [6]\<rparr>"
         and pub = "ECDSA_PublicKey \<lparr>ecdsa_Curve = ''P-256'', ecdsa_X = 1, ecdsa_Y = 2\<rparr>"
         and ek = "\<lparr>ecdsa_Curve = ''P-256'', ecdsa_X = 1, ecdsa_Y = 2\<rparr>"
         and P = test_primitives and data = "[1, 2, 3]"]
  by simp

text \<open>
  Claim C10. With a supported hash algorithm, a key that is neither a
  \<^verbatim>\<open>*ecdsa.PublicKey\<close> nor a \<^verbatim>\<open>*rsa.PublicKey\<close> (the nil interface included) makes
  \<^verbatim>\<open>Verify\<close> return the unknown-key-type error, after the digest alone: the signature is
  neither decoded nor verified.
\<close>

theorem Verify_unknown_key_type:
  assumes "HashAlgorithm sig = DigitallySigned_SHA256"
    and "\<forall>k. pub \<noteq> ECDSA_PublicKey k" and "\<forall>k. pub \<noteq> RSA_PublicKey k"
  shows "Verify P pub data (Some sig) =
           (Return (Some (Err_unknown_private_key_type (type_name pub))),
            [Call_Hash_New, Call_Hash_Write, Call_Hash_Sum]) \<and>
         list_all (\<lambda>c. \<not> signature_primitive c) (snd (Verify P pub data (Some sig)))"
  using assms by (simp add: Verify_other_key)

theorem Verify_unknown_key_type_witness:
  "Verify test_primitives Nil_PublicKey [1, 2, 3]
     (Some \<lparr>HashAlgorithm = DigitallySigned_SHA256, SignatureAlgorithm = DigitallySigned_ECDSA,
            Signature = [0x30, 0x06, 0x02, 0x01, 0x01, 0x02, 0x01, 0x02]\<rparr>) =
     (Return (Some (Err_unknown_private_key_type ''<nil>'')),
      [Call_Hash_New, Call_Hash_Write, Call_Hash_Sum]) \<and>
   Verify test_primitives (Other_PublicKey ''*dsa.PublicKey'') [1, 2, 3]
     (Some \<lparr>HashAlgorithm = DigitallySigned_SHA256, SignatureAlgorithm = DigitallySigned_RSA,
            Signature = [6]\<rparr>) =
     (Return (Some (Err_unknown_private_key_type ''*dsa.PublicKey'')),
      [Call_Hash_New, Call_Hash_Write, Call_Hash_Sum])"
  using
    Verify_unknown_key_type
      [where sig = "\<lparr>HashAlgorithm = DigitallySigned_SHA256,
                      SignatureAlgorithm = DigitallySigned_ECDSA,
                      Signature = [0x30, 0x06, 0x02, 0x01, 0x01, 0x02, 0x01, 0x02]\<rparr>"
         and pub = Nil_PublicKey and P = test_primitives and data = "[1, 2, 3]"]
    Verify_unknown_key_type
      [where sig = "\<lparr>HashAlgorithm = DigitallySigned_SHA256,
                      SignatureAlgorithm = DigitallySigned_RSA, Signature = [6]\<rparr>"
         and pub = "Other_PublicKey ''*dsa.PublicKey''" and P = test_primitives
         and data = "[1, 2, 3]"]
  by simp

text \<open>
  Claim C7. On the RSA branch \<^verbatim>\<open>Verify\<close> hands \<^verbatim>\<open>verifyRSA\<close> the resolved hash as
  its options, which is not a \<^verbatim>\<open>*rsa.PSSOptions\<close>; the result of \<^verbatim>\<open>Verify\<close> is that
  of \<^verbatim>\<open>rsa.VerifyPKCS1v15\<close> on the recomputed digest, and \<^verbatim>\<open>rsa.VerifyPSS\<close> is not
  called.
\<close>

theorem Verify_RSA_is_PKCS1v15:
  assumes "HashAlgorithm sig = DigitallySigned_SHA256"
    and "SignatureAlgorithm sig = DigitallySigned_RSA"
  shows "Verify P (RSA_PublicKey key) data (Some sig) =
           (Return (fst (verifyRSA P key
                      (Hash_Sum P (Hash_Write P (Hash_New P crypto_SHA256) data) [])
                      (Signature sig) crypto_SHA256 (Opts_Hash crypto_SHA256))),
            [Call_Hash_New, Call_Hash_Write, Call_Hash_Sum] @
            snd (verifyRSA P key
                   (Hash_Sum P (Hash_Write P (Hash_New P crypto_SHA256) data) [])
                   (Signature sig) crypto_SHA256 (Opts_Hash crypto_SHA256))) \<and>
         Verify P (RSA_PublicKey key) data (Some sig) =
           (Return (map_option Err_library
                      (rsa_VerifyPKCS1v15 P key crypto_SHA256
                         (Hash_Sum P (Hash_Write P (Hash_New P crypto_SHA256) data) [])
                         (Signature sig))),
            [Call_Hash_New, Call_Hash_Write, Call_Hash_Sum, Call_rsa_VerifyPKCS1v15]) \<and>
         Call_rsa_VerifyPSS \<notin> set (snd (Verify P (RSA_PublicKey key) data (Some sig)))"
  using assms by (simp add: Verify_RSA_key verifyRSA_def)

theorem Verify_RSA_is_PKCS1v15_witness:
  "Verify test_primitives (RSA_PublicKey \<lparr>rsa_N = 3233, rsa_E = 17\<rparr>) [1, 2, 3]
     (Some \<lparr>HashAlgorithm = DigitallySigned_SHA256, SignatureAlgorithm = DigitallySigned_RSA,
            Signature = [6]\<rparr>) =
     (Return None, [Call_Hash_New, Call_Hash_Write, Call_Hash_Sum, Call_rsa_VerifyPKCS1v15])"
  using
    Verify_RSA_is_PKCS1v15
      [where sig = "\<lparr>HashAlgorithm = DigitallySigned_SHA256,
                      SignatureAlgorithm = DigitallySigned_RSA, Signature = [6]\<rparr>"
         and key = "\<lparr>rsa_N = 3233, rsa_E = 17\<rparr>" and P = test_primitives
         and data = "[1, 2, 3]"]
  by (simp add: test_primitives_def test_primitives_for_def verifyRSA_def)

text \<open>
  Claim C8. When the serialisation of the object fails, \<^verbatim>\<open>VerifyObject\<close> returns that
  error after the one call of \<^verbatim>\<open>json.Marshal\<close>: nothing is hashed, decoded or verified,
  and \<^verbatim>\<open>Verify\<close> is not entered (a nil signature, on which \<^verbatim>\<open>Verify\<close> panics, gives
  the same returned error).
\<close>

theorem VerifyObject_serialisation_fails:
  assumes "json_Marshal P obj = Inl err"
  shows "VerifyObject P pub obj sig_ptr = (Return (Some (Err_library err)), [Call_json_Marshal])"
  using assms by (simp add: VerifyObject_def)

theorem VerifyObject_serialisation_fails_witness:
  "json_Marshal test_primitives None = Inl ''json: unsupported type'' \<and>
   VerifyObject test_primitives (RSA_PublicKey \<lparr>rsa_N = 3233, rsa_E = 17\<rparr>) None
     (Some \<lparr>HashAlgorithm = DigitallySigned_SHA256, SignatureAlgorithm = DigitallySigned_RSA,
            Signature = [6]\<rparr>) =
     (Return (Some (Err_library ''json: unsupported type'')), [Call_json_Marshal]) \<and>
   VerifyObject test_primitives (RSA_PublicKey \<lparr>rsa_N = 3233, rsa_E = 17\<rparr>) None None =
     (Return (Some (Err_library ''json: unsupported type'')), [Call_json_Marshal])"
proof -
  have m: "json_Marshal test_primitives None = Inl ''json: unsupported type''"
    by (simp add: test_primitives_def test_primitives_for_def)
  show ?thesis
    using m VerifyObject_serialisation_fails [OF m] by simp
qed


text \<open>
  Claim C5. When the Canonical Hasher accepts the object and yields the digest \<open>d\<close>,
  \<^verbatim>\<open>VerifyObject\<close> returns what \<^verbatim>\<open>Verify\<close> returns on \<open>d\<close>, its library calls being
  those of the hasher followed by those of \<^verbatim>\<open>Verify\<close>; it is the composition
  \<open>hash_then_verify\<close>.
\<close>

theorem VerifyObject_composition:
  assumes "Canonical_Hasher P obj = (Inr d, t)"
  shows "VerifyObject P pub obj sig_ptr =
           (fst (Verify P pub (hash_slice d) sig_ptr),
            t @ snd (Verify P pub (hash_slice d) sig_ptr)) \<and>
         VerifyObject P pub obj sig_ptr = hash_then_verify P pub obj sig_ptr"
  using assms
  by (auto simp: VerifyObject_def hash_then_verify_def Canonical_Hasher_def
      split: sum.splits prod.splits)

theorem VerifyObject_composition_witness:
  "Canonical_Hasher test_primitives (Some [1, 2, 3]) =
     (Inr (hash_array_of (replicate 31 0 @ [6])), [Call_json_Marshal, Call_CommonJSONHash]) \<and>
   VerifyObject test_primitives (RSA_PublicKey \<lparr>rsa_N = 3233, rsa_E = 17\<rparr>) (Some [1, 2, 3])
     (Some \<lparr>HashAlgorithm = DigitallySigned_SHA256, SignatureAlgorithm = DigitallySigned_RSA,
            Signature = [6]\<rparr>) =
     (fst (Verify test_primitives (RSA_PublicKey \<lparr>rsa_N = 3233, rsa_E = 17\<rparr>)
        (replicate 31 0 @ [6])
        (Some \<lparr>HashAlgorithm = DigitallySigned_SHA256, SignatureAlgorithm = DigitallySigned_RSA,
               Signature = [6]\<rparr>)),
      [Call_json_Marshal, Call_CommonJSONHash] @
      snd (Verify test_primitives (RSA_PublicKey \<lparr>rsa_N = 3233, rsa_E = 17\<rparr>)
        (replicate 31 0 @ [6])
        (Some \<lparr>HashAlgorithm = DigitallySigned_SHA256, SignatureAlgorithm = DigitallySigned_RSA,
               Signature = [6]\<rparr>)))"
proof -
  have h: "Canonical_Hasher test_primitives (Some [1, 2, 3]) =
             (Inr (hash_array_of (replicate 31 0 @ [6])),
              [Call_json_Marshal, Call_CommonJSONHash])"
    by (simp add: Canonical_Hasher_def test_primitives_def test_primitives_for_def)
  show ?thesis
    using h VerifyObject_composition [OF h] by (simp add: hash_slice_of_array hashLength_def)
qed

section \<open>verifyECDSA\<close>

lemma verifyECDSA_decode_error:
  "asn1_Unmarshal P sig = Inl e \<Longrightarrow>
   verifyECDSA P pub hashed sig = (Some errVerify, [Call_asn1_Unmarshal])"
  by (simp add: verifyECDSA_def)

lemma verifyECDSA_trailing:
  "asn1_Unmarshal P sig = Inr ((R, S), rest) \<Longrightarrow> rest \<noteq> [] \<Longrightarrow>
   verifyECDSA P pub hashed sig = (Some errVerify, [Call_asn1_Unmarshal])"
  by (simp add: verifyECDSA_def)

lemma verifyECDSA_decoded:
  "asn1_Unmarshal P sig = Inr ((R, S), []) \<Longrightarrow>
   verifyECDSA P pub hashed sig =
     (if ecdsa_Verify P pub hashed R S then None else Some errVerify,
      [Call_asn1_Unmarshal, Call_ecdsa_Verify])"
  by (simp add: verifyECDSA_def)

lemma errVerify_only_from_verifyECDSA:
  assumes "fst (Verify P pub data (Some sig)) = Return (Some errVerify)"
  shows "(\<exists>k. pub = ECDSA_PublicKey k) \<and> HashAlgorithm sig = DigitallySigned_SHA256 \<and>
         SignatureAlgorithm sig = DigitallySigned_ECDSA"
proof (cases "HashAlgorithm sig = DigitallySigned_SHA256")
  case False
  then show ?thesis
    using assms by (simp add: Verify_lookup_None cryptoHashLookup_other)
next
  case True
  show ?thesis
  proof (cases pub)
    case (ECDSA_PublicKey k)
    then show ?thesis
      using assms True by (simp add: Verify_ECDSA_key split: if_splits)
  next
    case (RSA_PublicKey k)
    then show ?thesis
      using assms True by (auto simp: Verify_RSA_key verifyRSA_def split: if_splits)
  next
    case (Other_PublicKey n)
    then show ?thesis
      using assms True by (simp add: Verify_other_key)
  next
    case Nil_PublicKey
    then show ?thesis
      using assms True by (simp add: Verify_other_key)
  qed
qed

text \<open>
  Claim C3. For an ECDSA key and signature bytes that decode as a sequence of two integers
  and leave at least one byte over, \<^verbatim>\<open>Verify\<close> fails. On a signature tagged SHA-256
  and ECDSA, the only one whose bytes are decoded, it returns \<^verbatim>\<open>errVerify\<close>, the error
  of the package for a malformed signature, straight after the decoding:
  \<^verbatim>\<open>ecdsa.Verify\<close> is not called, so the outcome is the same whether or not the two
  integers alone would verify. In the example that follows the theorem they would.
\<close>

theorem Verify_ECDSA_trailing_bytes:
  assumes "asn1_Unmarshal P (Signature sig) = Inr ((R, S), rest)"
    and "rest \<noteq> []"
  shows "fst (Verify P (ECDSA_PublicKey key) data (Some sig)) \<noteq> Return None \<and>
         (HashAlgorithm sig = DigitallySigned_SHA256 \<and>
          SignatureAlgorithm sig = DigitallySigned_ECDSA \<longrightarrow>
            Verify P (ECDSA_PublicKey key) data (Some sig) =
              (Return (Some errVerify),
               [Call_Hash_New, Call_Hash_Write, Call_Hash_Sum, Call_asn1_Unmarshal]))"
proof (cases "HashAlgorithm sig = DigitallySigned_SHA256")
  case True
  then show ?thesis
    using assms by (simp add: Verify_ECDSA_key verifyECDSA_trailing)
next
  case False
  then show ?thesis
    by (simp add: Verify_lookup_None cryptoHashLookup_other)
qed

theorem Verify_ECDSA_trailing_bytes_witness:
  "asn1_Unmarshal test_primitives [0x30, 0x06, 0x02, 0x01, 0x01, 0x02, 0x01, 0x02, 0x00] =
     Inr ((1, 2), [0x00]) \<and>
   Verify test_primitives
     (ECDSA_PublicKey \<lparr>ecdsa_Curve = ''P-256'', ecdsa_X = 1, ecdsa_Y = 2\<rparr>) [1, 2, 3]
     (Some \<lparr>HashAlgorithm = DigitallySigned_SHA256, SignatureAlgorithm = DigitallySigned_ECDSA,
            Signature = [0x30, 0x06, 0x02, 0x01, 0x01, 0x02, 0x01, 0x02, 0x00]\<rparr>) =
     (Return (Some errVerify),
      [Call_Hash_New, Call_Hash_Write, Call_Hash_Sum, Call_asn1_Unmarshal]) \<and>
   Verify test_primitives
     (ECDSA_PublicKey \<lparr>ecdsa_Curve = ''P-256'', ecdsa_X = 1, ecdsa_Y = 2\<rparr>) [1, 2, 3]
     (Some \<lparr>HashAlgorithm = DigitallySigned_SHA256, SignatureAlgorithm = DigitallySigned_ECDSA,
            Signature = [0x30, 0x06, 0x02, 0x01, 0x01, 0x02, 0x01, 0x02]\<rparr>) =
     (Return None,
      [Call_Hash_New, Call_Hash_Write, Call_Hash_Sum, Call_asn1_Unmarshal, Call_ecdsa_Verify])"
proof -
  have d: "asn1_Unmarshal test_primitives
             (Signature \<lparr>HashAlgorithm = DigitallySigned_SHA256,
                         SignatureAlgorithm = DigitallySigned_ECDSA,
                         Signature = [0x30, 0x06, 0x02, 0x01, 0x01, 0x02, 0x01, 0x02, 0x00]\<rparr>) =
           Inr ((1, 2), [0x00])"
    by (simp add: test_primitives_def test_primitives_for_def der_two_integers_def
        der_integer_def be_int_def)
  have ok: "Verify test_primitives
     (ECDSA_PublicKey \<lparr>ecdsa_Curve = ''P-256'', ecdsa_X = 1, ecdsa_Y = 2\<rparr>) [1, 2, 3]
     (Some \<lparr>HashAlgorithm = DigitallySigned_SHA256, SignatureAlgorithm = DigitallySigned_ECDSA,
            Signature = [0x30, 0x06, 0x02, 0x01, 0x01, 0x02, 0x01, 0x02]\<rparr>) =
     (Return None,
      [Call_Hash_New, Call_Hash_Write, Call_Hash_Sum, Call_asn1_Unmarshal, Call_ecdsa_Verify])"
    by (simp add: Verify_ECDSA_key verifyECDSA_def test_primitives_def test_primitives_for_def
        der_two_integers_def der_integer_def be_int_def)
  show ?thesis
    using d ok Verify_ECDSA_trailing_bytes
        [OF d, where key = "\<lparr>ecdsa_Curve = ''P-256'', ecdsa_X = 1, ecdsa_Y = 2\<rparr>"
           and data = "[1, 2, 3]"]
    by simp
qed

text \<open>
  Claim C2, as amended. For an ECDSA key and a signature tagged SHA-256 and ECDSA, bytes
  that do not decode, bytes with trailing data, and bytes that decode and are rejected by
  \<^verbatim>\<open>ecdsa.Verify\<close> all make \<^verbatim>\<open>Verify\<close> return the one value \<^verbatim>\<open>errVerify\<close>: a
  malformed signature and a failed verification are the same error. No other failure
  returns that value: whenever \<^verbatim>\<open>Verify\<close> returns \<^verbatim>\<open>errVerify\<close>, the key is an ECDSA
  key and the signature is tagged SHA-256 and ECDSA, so the error of a signature is told
  apart from an unsupported hash algorithm, an algorithm mismatch, an unknown key type and
  the error of the RSA library.
\<close>

theorem Verify_ECDSA_one_error_value:
  assumes "HashAlgorithm sig = DigitallySigned_SHA256"
    and "SignatureAlgorithm sig = DigitallySigned_ECDSA"
    and "(\<exists>e. asn1_Unmarshal P (Signature sig) = Inl e) \<or>
         (\<exists>R S rest. asn1_Unmarshal P (Signature sig) = Inr ((R, S), rest) \<and> rest \<noteq> []) \<or>
         (\<exists>R S. asn1_Unmarshal P (Signature sig) = Inr ((R, S), []) \<and>
           \<not> ecdsa_Verify P key
               (Hash_Sum P (Hash_Write P (Hash_New P crypto_SHA256) data) []) R S)"
  shows "fst (Verify P (ECDSA_PublicKey key) data (Some sig)) = Return (Some errVerify) \<and>
         (\<forall>pub' data' sig'.
            fst (Verify P pub' data' (Some sig')) = Return (Some errVerify) \<longrightarrow>
              (\<exists>k. pub' = ECDSA_PublicKey k) \<and>
              HashAlgorithm sig' = DigitallySigned_SHA256 \<and>
              SignatureAlgorithm sig' = DigitallySigned_ECDSA)"
proof
  show "fst (Verify P (ECDSA_PublicKey key) data (Some sig)) = Return (Some errVerify)"
    using assms
    by (auto simp: Verify_ECDSA_key verifyECDSA_decode_error verifyECDSA_trailing
        verifyECDSA_decoded)
  show "\<forall>pub' data' sig'.
            fst (Verify P pub' data' (Some sig')) = Return (Some errVerify) \<longrightarrow>
              (\<exists>k. pub' = ECDSA_PublicKey k) \<and>
              HashAlgorithm sig' = DigitallySigned_SHA256 \<and>
              SignatureAlgorithm sig' = DigitallySigned_ECDSA"
    by (intro allI impI) (rule errVerify_only_from_verifyECDSA)
qed

text \<open>
  The claim as first stated asks for two different error values. Bytes that do not decode
  and bytes that decode to a pair \<^verbatim>\<open>ecdsa.Verify\<close> rejects give the same result.
\<close>

theorem Verify_ECDSA_one_error_value_counterexample:
  "asn1_Unmarshal test_primitives [0xFF] = Inl ''asn1: syntax error'' \<and>
   asn1_Unmarshal test_primitives [0x30, 0x06, 0x02, 0x01, 0x02, 0x02, 0x01, 0x01] =
     Inr ((2, 1), []) \<and>
   \<not> ecdsa_Verify test_primitives \<lparr>ecdsa_Curve = ''P-256'', ecdsa_X = 1, ecdsa_Y = 2\<rparr>
       (Hash_Sum test_primitives
          (Hash_Write test_primitives (Hash_New test_primitives crypto_SHA256) [1, 2, 3]) [])
       2 1 \<and>
   fst (Verify test_primitives
     (ECDSA_PublicKey \<lparr>ecdsa_Curve = ''P-256'', ecdsa_X = 1, ecdsa_Y = 2\<rparr>) [1, 2, 3]
     (Some \<lparr>HashAlgorithm = DigitallySigned_SHA256, SignatureAlgorithm = DigitallySigned_ECDSA,
            Signature = [0xFF]\<rparr>)) =
   fst (Verify test_primitives
     (ECDSA_PublicKey \<lparr>ecdsa_Curve = ''P-256'', ecdsa_X = 1, ecdsa_Y = 2\<rparr>) [1, 2, 3]
     (Some \<lparr>HashAlgorithm = DigitallySigned_SHA256, SignatureAlgorithm = DigitallySigned_ECDSA,
            Signature = [0x30, 0x06, 0x02, 0x01, 0x02, 0x02, 0x01, 0x01]\<rparr>))"
  by (simp add: Verify_ECDSA_key verifyECDSA_def test_primitives_def test_primitives_for_def der_two_integers_def
      der_integer_def be_int_def)

theorem Verify_ECDSA_one_error_value_witness:
  "fst (Verify test_primitives
     (ECDSA_PublicKey \<lparr>ecdsa_Curve = ''P-256'', ecdsa_X = 1, ecdsa_Y = 2\<rparr>) [1, 2, 3]
     (Some \<lparr>HashAlgorithm = DigitallySigned_SHA256, SignatureAlgorithm = DigitallySigned_ECDSA,
            Signature = [0xFF]\<rparr>)) = Return (Some errVerify) \<and>
   fst (Verify test_primitives
     (ECDSA_PublicKey \<lparr>ecdsa_Curve = ''P-256'', ecdsa_X = 1, ecdsa_Y = 2\<rparr>) [1, 2, 3]
     (Some \<lparr>HashAlgorithm = DigitallySigned_SHA256, SignatureAlgorithm = DigitallySigned_ECDSA,
            Signature = [0x30, 0x06, 0x02, 0x01, 0x02, 0x02, 0x01, 0x01, 0x09]\<rparr>)) =
     Return (Some errVerify) \<and>
   fst (Verify test_primitives
     (ECDSA_PublicKey \<lparr>ecdsa_Curve = ''P-256'', ecdsa_X = 1, ecdsa_Y = 2\<rparr>) [1, 2, 3]
     (Some \<lparr>HashAlgorithm = DigitallySigned_SHA256, SignatureAlgorithm = DigitallySigned_ECDSA,
            Signature = [0x30, 0x06, 0x02, 0x01, 0x02, 0x02, 0x01, 0x01]\<rparr>)) =
     Return (Some errVerify)"
proof -
  let ?key = "\<lparr>ecdsa_Curve = ''P-256'', ecdsa_X = 1, ecdsa_Y = 2\<rparr>"
  have a: "\<exists>e. asn1_Unmarshal test_primitives [0xFF] = Inl e"
    by (simp add: test_primitives_def test_primitives_for_def der_two_integers_def)
  have b: "\<exists>R S rest. asn1_Unmarshal test_primitives
             [0x30, 0x06, 0x02, 0x01, 0x02, 0x02, 0x01, 0x01, 0x09] = Inr ((R, S), rest) \<and>
             rest \<noteq> []"
    by (simp add: test_primitives_def test_primitives_for_def der_two_integers_def der_integer_def be_int_def)
  have c: "\<exists>R S. asn1_Unmarshal test_primitives
             [0x30, 0x06, 0x02, 0x01, 0x02, 0x02, 0x01, 0x01] = Inr ((R, S), []) \<and>
             \<not> ecdsa_Verify test_primitives ?key
                 (Hash_Sum test_primitives
                    (Hash_Write test_primitives (Hash_New test_primitives crypto_SHA256)
                       [1, 2, 3]) []) R S"
    by (simp add: test_primitives_def test_primitives_for_def der_two_integers_def der_integer_def be_int_def)
  show ?thesis
    using
      Verify_ECDSA_one_error_value
        [where sig = "\<lparr>HashAlgorithm = DigitallySigned_SHA256,
                        SignatureAlgorithm = DigitallySigned_ECDSA, Signature = [0xFF]\<rparr>"
           and P = test_primitives and key = ?key and data = "[1, 2, 3]",
           THEN conjunct1]
      Verify_ECDSA_one_error_value
        [where sig = "\<lparr>HashAlgorithm = DigitallySigned_SHA256,
                        SignatureAlgorithm = DigitallySigned_ECDSA,
                        Signature = [0x30, 0x06, 0x02, 0x01, 0x02, 0x02, 0x01, 0x01, 0x09]\<rparr>"
           and P = test_primitives and key = ?key and data = "[1, 2, 3]",
           THEN conjunct1]
      Verify_ECDSA_one_error_value
        [where sig = "\<lparr>HashAlgorithm = DigitallySigned_SHA256,
                        SignatureAlgorithm = DigitallySigned_ECDSA,
                        Signature = [0x30, 0x06, 0x02, 0x01, 0x02, 0x02, 0x01, 0x01]\<rparr>"
           and P = test_primitives and key = ?key and data = "[1, 2, 3]",
           THEN conjunct1]
      a b c
    by simp
qed

section \<open>PublicKeyFromPEM\<close>

text \<open>
  Claim C9. \<^verbatim>\<open>PublicKeyFromPEM\<close> fails with the decoding error when \<^verbatim>\<open>pem.Decode\<close>
  finds no block; with the extra-data error when a block is found and bytes remain after
  it; with the parsing error (wrapping that of \<^verbatim>\<open>x509.ParsePKIXPublicKey\<close>) when the
  block is the whole input and its bytes do not parse; and returns the parsed key
  otherwise. \<^verbatim>\<open>pem.Decode\<close> is called exactly once.
\<close>

theorem PublicKeyFromPEM_results:
  "(fst (pem_Decode P pemEncodedKey) = None \<longrightarrow>
      fst (PublicKeyFromPEM P pemEncodedKey) = Inl Err_could_not_decode_PEM) \<and>
   (fst (pem_Decode P pemEncodedKey) = Some block \<and> snd (pem_Decode P pemEncodedKey) \<noteq> [] \<longrightarrow>
      fst (PublicKeyFromPEM P pemEncodedKey) = Inl Err_extra_data_after_PEM) \<and>
   (pem_Decode P pemEncodedKey = (Some block, []) \<and>
    x509_ParsePKIXPublicKey P (block_Bytes block) = Inl err \<longrightarrow>
      fst (PublicKeyFromPEM P pemEncodedKey) = Inl (Err_unable_to_parse_public_key err)) \<and>
   (pem_Decode P pemEncodedKey = (Some block, []) \<and>
    x509_ParsePKIXPublicKey P (block_Bytes block) = Inr parsedKey \<longrightarrow>
      fst (PublicKeyFromPEM P pemEncodedKey) = Inr parsedKey) \<and>
   count_list (snd (PublicKeyFromPEM P pemEncodedKey)) Call_pem_Decode = 1"
  by (cases "pem_Decode P pemEncodedKey")
     (auto simp: PublicKeyFromPEM_def split: option.splits sum.splits)


theorem PublicKeyFromPEM_results_witness:
  "fst (PublicKeyFromPEM test_primitives [2]) = Inl Err_could_not_decode_PEM \<and>
   fst (PublicKeyFromPEM test_primitives [1, 3, 1, 7, 9, 0]) = Inl Err_extra_data_after_PEM \<and>
   fst (PublicKeyFromPEM test_primitives [1, 3, 5, 7, 9]) =
     Inl (Err_unable_to_parse_public_key ''x509: unknown public key algorithm'') \<and>
   fst (PublicKeyFromPEM test_primitives [1, 3, 1, 7, 9]) =
     Inr (ECDSA_PublicKey \<lparr>ecdsa_Curve = ''P-256'', ecdsa_X = 7, ecdsa_Y = 9\<rparr>) \<and>
   count_list (snd (PublicKeyFromPEM test_primitives [1, 3, 1, 7, 9])) Call_pem_Decode = 1"
proof -
  have a: "pem_Decode test_primitives [2] = (None, [2])"
    by (simp add: test_primitives_def test_primitives_for_def test_pem_Decode_def)
  have b: "pem_Decode test_primitives [1, 3, 1, 7, 9, 0] =
             (Some \<lparr>block_Type = ''PUBLIC KEY'', block_Bytes = [1, 7, 9]\<rparr>, [0])"
    by (simp add: test_primitives_def test_primitives_for_def test_pem_Decode_def)
  have c: "pem_Decode test_primitives [1, 3, 5, 7, 9] =
             (Some \<lparr>block_Type = ''PUBLIC KEY'', block_Bytes = [5, 7, 9]\<rparr>, [])"
    by (simp add: test_primitives_def test_primitives_for_def test_pem_Decode_def)
  have c': "x509_ParsePKIXPublicKey test_primitives [5, 7, 9] =
              Inl ''x509: unknown public key algorithm''"
    by (simp add: test_primitives_def test_primitives_for_def test_ParsePKIXPublicKey_def)
  have d: "pem_Decode test_primitives [1, 3, 1, 7, 9] =
             (Some \<lparr>block_Type = ''PUBLIC KEY'', block_Bytes = [1, 7, 9]\<rparr>, [])"
    by (simp add: test_primitives_def test_primitives_for_def test_pem_Decode_def)
  have d': "x509_ParsePKIXPublicKey test_primitives [1, 7, 9] =
              Inr (ECDSA_PublicKey \<lparr>ecdsa_Curve = ''P-256'', ecdsa_X = 7, ecdsa_Y = 9\<rparr>)"
    by (simp add: test_primitives_def test_primitives_for_def test_ParsePKIXPublicKey_def)
  show ?thesis
    using
      PublicKeyFromPEM_results [where P = test_primitives and pemEncodedKey = "[2]"]
      PublicKeyFromPEM_results
        [where P = test_primitives and pemEncodedKey = "[1, 3, 1, 7, 9, 0]"
           and block = "\<lparr>block_Type = ''PUBLIC KEY'', block_Bytes = [1, 7, 9]\<rparr>"]
      PublicKeyFromPEM_results
        [where P = test_primitives and pemEncodedKey = "[1, 3, 5, 7, 9]"
           and block = "\<lparr>block_Type = ''PUBLIC KEY'', block_Bytes = [5, 7, 9]\<rparr>"
           and err = "''x509: unknown public key algorithm''"]
      PublicKeyFromPEM_results
        [where P = test_primitives and pemEncodedKey = "[1, 3, 1, 7, 9]"
           and block = "\<lparr>block_Type = ''PUBLIC KEY'', block_Bytes = [1, 7, 9]\<rparr>"
           and parsedKey =
             "ECDSA_PublicKey \<lparr>ecdsa_Curve = ''P-256'', ecdsa_X = 7, ecdsa_Y = 9\<rparr>"]
      a b c c' d d'
    by simp
qed

section \<open>The canonical hasher\<close>











end
